theory Spec2Isabelle
  imports Complex_Main
begin

section \<open>JavaScript values and strings\<close>

text \<open>
  The admin dashboard module is JavaScript. A JavaScript string is a sequence of UTF-16
  code units; the model uses \<^typ>\<open>string\<close>, reading a \<^typ>\<open>char\<close> as a code unit below
  256 (the ISO-8859-1 range). Every pattern of the source is written in ASCII, and the
  character classes \<open>\w\<close>, \<open>\s\<close> and \<open>.\<close> are modelled on that range.

  The helpers of \<open>SecurityUtils\<close> start with a guard on the dynamic type of their
  argument, so the argument is a value of \<open>jsval\<close>: \<open>undefined\<close>, \<open>null\<close>, a boolean or
  a string. Numbers and objects are left out (the callers pass the contents of text
  inputs).
\<close>

datatype jsval = JUndefined | JNull | JBool bool | JStr string

text \<open>\<open>!input\<close> is the negation of \<open>truthy input\<close>.\<close>

fun truthy :: "jsval \<Rightarrow> bool" where
  "truthy JUndefined = False"
| "truthy JNull = False"
| "truthy (JBool b) = b"
| "truthy (JStr s) = (s \<noteq> [])"

section \<open>RateLimiter\<close>

text \<open>
  \<^verbatim>\<open>RateLimiter.attempts\<close> is a plain object used as a dictionary from identifier to a
  record \<^verbatim>\<open>{ count, firstAttempt, lockedUntil? }\<close>. The table of the model holds the
  object's own entries. \<^verbatim>\<open>Date.now()\<close> is an argument \<open>now\<close> of each operation that
  reads the clock (milliseconds, an integer). Every operation returns the table it
  leaves behind.
\<close>

record attempt_record =
  count :: int
  firstAttempt :: int
  lockedUntil :: "int option"

type_synonym attempts_table = "string \<rightharpoonup> attempt_record"

definition maxAttempts :: int where
  "maxAttempts = 5"

definition lockoutTime :: int where
  "lockoutTime = 15 * 60 * 1000"

text \<open>
  \<^verbatim>\<open>RateLimiter.attempts[identifier]\<close> reads an own entry if there is one, and otherwise
  follows the prototype chain: for the name of a property of \<^verbatim>\<open>Object.prototype\<close> the
  value is that property (a function, or \<^verbatim>\<open>Object.prototype\<close> itself for
  \<^verbatim>\<open>__proto__\<close>), for every other name it is \<open>undefined\<close>.
\<close>

definition inherited_name :: "string \<Rightarrow> bool" where
  "inherited_name identifier =
     (identifier \<in> set
        [''constructor'', ''hasOwnProperty'', ''isPrototypeOf'', ''propertyIsEnumerable'',
         ''toLocaleString'', ''toString'', ''valueOf'', ''__proto__'',
         ''__defineGetter__'', ''__defineSetter__'', ''__lookupGetter__'',
         ''__lookupSetter__''])"

datatype lookup = Absent | Own attempt_record | Inherited

definition lookup_attempt :: "attempts_table \<Rightarrow> string \<Rightarrow> lookup" where
  "lookup_attempt attempts identifier =
     (case attempts identifier of
        Some record \<Rightarrow> Own record
      | None \<Rightarrow> if inherited_name identifier then Inherited else Absent)"

text \<open>
  \<^verbatim>\<open>record.lockedUntil\<close> in a condition: an absent field is \<open>undefined\<close> and the number
  \<open>0\<close> is falsy as well.
\<close>

fun truthy_time :: "int option \<Rightarrow> bool" where
  "truthy_time None = False"
| "truthy_time (Some t) = (t \<noteq> 0)"

text \<open>
  An inherited value is truthy and has neither \<open>lockedUntil\<close> nor a numeric \<open>count\<close>:
  \<^verbatim>\<open>record.count < maxAttempts\<close> compares \<open>undefined\<close> (or \<open>NaN\<close>, see \<open>recordAttempt\<close>)
  with 5 and is false.
\<close>

definition canAttempt :: "string \<Rightarrow> int \<Rightarrow> attempts_table \<Rightarrow> bool \<times> attempts_table" where
  "canAttempt identifier now attempts =
     (case lookup_attempt attempts identifier of
        Absent \<Rightarrow> (True, attempts)
      | Inherited \<Rightarrow> (False, attempts)
      | Own record \<Rightarrow>
          if truthy_time (lockedUntil record) \<and> now < the (lockedUntil record)
          then (False, attempts)
          else if truthy_time (lockedUntil record) \<and> now \<ge> the (lockedUntil record)
          then (True, attempts(identifier := None))
          else (count record < maxAttempts, attempts))"

text \<open>
  \<^verbatim>\<open>delete RateLimiter.attempts[identifier]\<close> removes an own entry and nothing else. On a
  failure for an inherited name the creation of the record is skipped (the inherited
  value is truthy), \<^verbatim>\<open>count++\<close> leaves \<open>NaN\<close> in the \<open>count\<close> of the inherited value,
  and \<^verbatim>\<open>NaN >= maxAttempts\<close> is false: the table is as it was. That \<open>count\<close> lies
  outside the table, and no operation of the rate limiter tells \<open>NaN\<close> from \<open>undefined\<close>
  there.
\<close>

definition recordAttempt :: "string \<Rightarrow> bool \<Rightarrow> int \<Rightarrow> attempts_table \<Rightarrow> attempts_table" where
  "recordAttempt identifier success now attempts =
     (if success then attempts(identifier := None)
      else
        (case lookup_attempt attempts identifier of
           Inherited \<Rightarrow> attempts
         | found \<Rightarrow>
             let record0 = (case found of
                              Own r \<Rightarrow> r
                            | _ \<Rightarrow> \<lparr>count = 0, firstAttempt = now, lockedUntil = None\<rparr>);
                 record1 = record0\<lparr>count := count record0 + 1\<rparr>;
                 record2 = (if count record1 \<ge> maxAttempts
                            then record1\<lparr>lockedUntil := Some (now + lockoutTime)\<rparr>
                            else record1)
             in attempts(identifier \<mapsto> record2)))"

text \<open>
  \<^verbatim>\<open>Math.ceil(remaining / 1000 / 60)\<close>: the quotient is taken exactly here; the
  rounding of the two floating-point divisions is not modelled.
\<close>

definition getRemainingTime :: "string \<Rightarrow> int \<Rightarrow> attempts_table \<Rightarrow> int \<times> attempts_table" where
  "getRemainingTime identifier now attempts =
     (case lookup_attempt attempts identifier of
        Absent \<Rightarrow> (0, attempts)
      | Inherited \<Rightarrow> (0, attempts)
      | Own record \<Rightarrow>
          if \<not> truthy_time (lockedUntil record) then (0, attempts)
          else
            let remaining = the (lockedUntil record) - now
            in (if remaining > 0 then \<lceil>rat_of_int remaining / 1000 / 60\<rceil> else 0, attempts))"

text \<open>
  The number \<open>getAttemptsLeft\<close> returns: for an inherited value
  \<^verbatim>\<open>Math.max(0, maxAttempts - record.count)\<close> is \<open>NaN\<close>.
\<close>

datatype jsnum = NaN | Num int

definition getAttemptsLeft :: "string \<Rightarrow> attempts_table \<Rightarrow> jsnum \<times> attempts_table" where
  "getAttemptsLeft identifier attempts =
     (case lookup_attempt attempts identifier of
        Absent \<Rightarrow> (Num maxAttempts, attempts)
      | Inherited \<Rightarrow> (NaN, attempts)
      | Own record \<Rightarrow> (Num (max 0 (maxAttempts - count record)), attempts))"

text \<open>\<open>n\<close> failed attempts in a row, the k-th at the time \<open>ts ! k\<close>.\<close>

fun recordFailures :: "string \<Rightarrow> int list \<Rightarrow> attempts_table \<Rightarrow> attempts_table" where
  "recordFailures identifier [] attempts = attempts"
| "recordFailures identifier (t # ts) attempts =
     recordFailures identifier ts (recordAttempt identifier False t attempts)"

text \<open>
  The records that \<open>recordAttempt\<close> writes with a clock at or after the epoch: a lockout
  time is a positive number, and a record carries one only once its count has reached
  \<open>maxAttempts\<close>.
\<close>

definition wf_table :: "attempts_table \<Rightarrow> bool" where
  "wf_table attempts =
     (\<forall>identifier record t. attempts identifier = Some record \<longrightarrow>
        lockedUntil record = Some t \<longrightarrow> 0 < t \<and> maxAttempts \<le> count record)"

section \<open>Strings and regular expressions\<close>

subsection \<open>Character classes\<close>

definition is_digit :: "char \<Rightarrow> bool" where
  "is_digit c = (let n = (of_char c :: nat) in 48 \<le> n \<and> n \<le> 57)"

definition is_upper :: "char \<Rightarrow> bool" where
  "is_upper c = (let n = (of_char c :: nat) in 65 \<le> n \<and> n \<le> 90)"

definition is_lower :: "char \<Rightarrow> bool" where
  "is_lower c = (let n = (of_char c :: nat) in 97 \<le> n \<and> n \<le> 122)"

text \<open>\<open>\w\<close> is \<open>[A-Za-z0-9_]\<close> (the patterns carry no \<open>u\<close> flag).\<close>

definition is_word :: "char \<Rightarrow> bool" where
  "is_word c = (is_digit c \<or> is_upper c \<or> is_lower c \<or> c = CHR ''_'')"

text \<open>
  \<open>\s\<close> and the characters \<open>trim\<close> removes: tab, line feed, vertical tab, form feed,
  carriage return, space and the no-break space (the white space and line terminators
  below 256).
\<close>

definition is_space :: "char \<Rightarrow> bool" where
  "is_space c = (let n = (of_char c :: nat) in (9 \<le> n \<and> n \<le> 13) \<or> n = 32 \<or> n = 160)"

text \<open>\<open>.\<close> matches everything but a line terminator.\<close>

definition is_line_terminator :: "char \<Rightarrow> bool" where
  "is_line_terminator c = (let n = (of_char c :: nat) in n = 10 \<or> n = 13)"

text \<open>
  Under the flag \<open>i\<close> two characters match when they canonicalise to the same one; for a
  pattern written in ASCII that identifies exactly the two cases of an ASCII letter.
\<close>

definition ascii_lower :: "char \<Rightarrow> char" where
  "ascii_lower c = (if is_upper c then char_of (of_char c + (32 :: nat)) else c)"



definition trim :: "string \<Rightarrow> string" where
  "trim s = rev (dropWhile is_space (rev (dropWhile is_space s)))"

subsection \<open>Patterns\<close>

text \<open>
  The regular expressions of the module all have one shape: a sequence of literals and
  of greedy repetitions of a character class, where no class contains the character
  that may follow the repetition. On such a pattern backtracking into a repetition
  never helps, so the match is found by reading the input from left to right. A pattern
  is the list of its steps:

  \<^item> \<open>Lit p\<close>: the literal \<open>p\<close> under the flag \<open>i\<close>; \<open>LitCS p\<close>: the literal without it;
  \<^item> \<open>Opt p\<close>: \<open>p?\<close>; \<open>AltLit ps\<close>: \<open>(p1|p2|...)\<close>, no alternative a prefix of another;
  \<^item> \<open>Many0 P\<close> and \<open>Many1 P\<close>: \<open>[P]*\<close> and \<open>[P]+\<close>;
  \<^item> \<open>NotWord\<close>: the word boundary \<open>\b\<close> after a word character: the next character is not
    a word character, or the input ends;
  \<^item> \<open>AtEnd\<close>: \<open>$\<close> (the patterns carry no \<open>m\<close> flag);
  \<^item> \<open>SkipUntil p\<close>: \<open>[^<]*(?:(?!p)<[^<]*)*p\<close> for a literal \<open>p\<close> that starts with \<open><\<close>:
    everything up to and including the first occurrence of \<open>p\<close>;
  \<^item> \<open>DotStarThen p\<close>: \<open>.*p\<close> at the end of a pattern: the last occurrence of \<open>p\<close> that
    no line terminator separates from the current position.

  \<open>run pat s\<close> is the input left after a match of \<open>pat\<close> at the start of \<open>s\<close>.
\<close>

datatype step =
    Lit string
  | LitCS string
  | Opt string
  | AltLit "string list"
  | Many0 "char \<Rightarrow> bool"
  | Many1 "char \<Rightarrow> bool"
  | NotWord
  | AtEnd
  | SkipUntil string
  | DotStarThen string

fun ci_prefix :: "string \<Rightarrow> string \<Rightarrow> bool" where
  "ci_prefix [] s = True"
| "ci_prefix (p # ps) [] = False"
| "ci_prefix (p # ps) (c # cs) = (ascii_lower p = ascii_lower c \<and> ci_prefix ps cs)"

definition cs_prefix :: "string \<Rightarrow> string \<Rightarrow> bool" where
  "cs_prefix p s = (take (length p) s = p)"

fun skip_until :: "string \<Rightarrow> string \<Rightarrow> string option" where
  "skip_until p [] = None"
| "skip_until p (c # s) =
     (if ci_prefix p (c # s) then Some (drop (length p) (c # s)) else skip_until p s)"

fun dotstar_then :: "string \<Rightarrow> string \<Rightarrow> string option" where
  "dotstar_then p [] = (if p = [] then Some [] else None)"
| "dotstar_then p (c # s) =
     (case (if is_line_terminator c then None else dotstar_then p s) of
        Some r \<Rightarrow> Some r
      | None \<Rightarrow> if cs_prefix p (c # s) then Some (drop (length p) (c # s)) else None)"

fun first_alt :: "string list \<Rightarrow> string \<Rightarrow> string option" where
  "first_alt [] s = None"
| "first_alt (p # ps) s = (if ci_prefix p s then Some (drop (length p) s) else first_alt ps s)"

fun run :: "step list \<Rightarrow> string \<Rightarrow> string option" where
  "run [] s = Some s"
| "run (Lit p # pat) s = (if ci_prefix p s then run pat (drop (length p) s) else None)"
| "run (LitCS p # pat) s = (if cs_prefix p s then run pat (drop (length p) s) else None)"
| "run (Opt p # pat) s = (if ci_prefix p s then run pat (drop (length p) s) else run pat s)"
| "run (AltLit ps # pat) s = (case first_alt ps s of None \<Rightarrow> None | Some r \<Rightarrow> run pat r)"
| "run (Many0 P # pat) s = run pat (dropWhile P s)"
| "run (Many1 P # pat) s = (if takeWhile P s = [] then None else run pat (dropWhile P s))"
| "run (NotWord # pat) s = (case s of [] \<Rightarrow> run pat s | c # _ \<Rightarrow> if is_word c then None else run pat s)"
| "run (AtEnd # pat) s = (if s = [] then run pat s else None)"
| "run (SkipUntil p # pat) s = (case skip_until p s of None \<Rightarrow> None | Some r \<Rightarrow> run pat r)"
| "run (DotStarThen p # pat) s = (case dotstar_then p s of None \<Rightarrow> None | Some r \<Rightarrow> run pat r)"

text \<open>\<open>regex.test(s)\<close> for a pattern without the flag \<open>g\<close>: a match at some position.\<close>

fun re_test :: "step list \<Rightarrow> string \<Rightarrow> bool" where
  "re_test pat [] = (run pat [] \<noteq> None)"
| "re_test pat (c # s) = (run pat (c # s) \<noteq> None \<or> re_test pat s)"

text \<open>\<open>s.match(/^.../)\<close> as a condition: a match at the start.\<close>

definition re_match_start :: "step list \<Rightarrow> string \<Rightarrow> bool" where
  "re_match_start pat s = (run pat s \<noteq> None)"

text \<open>
  \<open>s.replace(/.../g, '')\<close>: from left to right, the leftmost match is removed and the
  search goes on after it; where nothing (or the empty string) matches, the character
  is kept.
\<close>

function gremove :: "step list \<Rightarrow> string \<Rightarrow> string" where
  "gremove pat [] = []"
| "gremove pat (c # s) =
     (case run pat (c # s) of
        None \<Rightarrow> c # gremove pat s
      | Some r \<Rightarrow> if length r < length (c # s) then gremove pat r else c # gremove pat s)"
  by pat_completeness auto
termination
  by (relation "measure (\<lambda>(pat, s). length s)") auto

text \<open>\<open>s.split(sep)\<close> for a separator of one character: never an empty array.\<close>

fun split_on :: "char \<Rightarrow> string \<Rightarrow> string list" where
  "split_on sep [] = [[]]"
| "split_on sep (c # s) =
     (if c = sep then [] # split_on sep s
      else (case split_on sep s of [] \<Rightarrow> [[c]] | p # ps \<Rightarrow> (c # p) # ps))"

section \<open>SecurityUtils\<close>


text \<open>The class \<^verbatim>\<open>[<>\"\'`;\\]\<close>.\<close>

definition dangerous_chars :: "char \<Rightarrow> bool" where
  "dangerous_chars c =
     (c = CHR ''<'' \<or> c = CHR ''>'' \<or> c = CHR 0x22 \<or> c = CHR 0x27 \<or> c = CHR 0x60
      \<or> c = CHR '';'' \<or> c = CHR 0x5C)"

text \<open>\<^verbatim>\<open>s.replace(/[...]/g, '')\<close> for a character class.\<close>

definition strip_chars :: "(char \<Rightarrow> bool) \<Rightarrow> string \<Rightarrow> string" where
  "strip_chars P s = filter (\<lambda>c. \<not> P c) s"

definition re_javascript :: "step list" where
  "re_javascript = [Lit ''javascript:'']"

definition re_handler :: "step list" where
  "re_handler = [Lit ''on'', Many1 is_word, Lit ''='']"


definition re_data_html :: "step list" where
  "re_data_html = [Lit ''data:text/html'']"

definition re_script_block :: "step list" where
  "re_script_block = [Lit ''<script'', NotWord, SkipUntil ''</script>'']"

definition re_iframe_block :: "step list" where
  "re_iframe_block = [Lit ''<iframe'', NotWord, SkipUntil ''</iframe>'']"


fun sanitizeName :: "jsval \<Rightarrow> string" where
  "sanitizeName (JStr s) =
     (if s = [] then []
      else take 200 (trim (gremove re_handler (gremove re_javascript
             (strip_chars dangerous_chars s)))))"
| "sanitizeName _ = []"

fun sanitizeDescription :: "jsval \<Rightarrow> string" where
  "sanitizeDescription (JStr s) =
     (if s = [] then []
      else take 5000 (trim (gremove re_data_html (gremove re_handler (gremove re_javascript
             (gremove re_iframe_block (gremove re_script_block s)))))))"
| "sanitizeDescription _ = []"

text \<open>\<open>String(input)\<close>.\<close>

fun js_String :: "jsval \<Rightarrow> string" where
  "js_String JUndefined = ''undefined''"
| "js_String JNull = ''null''"
| "js_String (JBool b) = (if b then ''true'' else ''false'')"
| "js_String (JStr s) = s"

definition price_chars :: "char \<Rightarrow> bool" where
  "price_chars c = (is_digit c \<or> c = CHR ''.'')"

definition sanitizePrice :: "jsval \<Rightarrow> string" where
  "sanitizePrice input =
     (if \<not> truthy input then []
      else
        let cleaned = filter price_chars (js_String input);
            parts = split_on CHR ''.'' cleaned
        in if length parts > 2 then parts ! 0 @ ''.'' @ concat (tl parts)
           else take 10 cleaned)"

definition re_http :: "step list" where
  "re_http = [Lit ''http'', Opt ''s'', Lit ''://'']"

definition re_script_url :: "step list" where
  "re_script_url = [AltLit [''javascript'', ''data'', ''vbscript''], Lit '':'']"

fun sanitizeUrl :: "jsval \<Rightarrow> string" where
  "sanitizeUrl (JStr s) =
     (if s = [] then []
      else
        let trimmed = trim s
        in if trimmed \<noteq> [] \<and> \<not> re_match_start re_http trimmed then []
           else if re_match_start re_script_url trimmed then []
           else take 2000 trimmed)"
| "sanitizeUrl _ = []"


fun sanitizeCategory :: "jsval \<Rightarrow> string" where
  "sanitizeCategory (JStr s) =
     (if s = [] then []
      else take 100 (trim (strip_chars dangerous_chars s)))"
| "sanitizeCategory _ = []"

definition attackPatterns :: "step list list" where
  "attackPatterns =
     [ [Lit ''<script''],
       [Lit ''javascript:''],
       [Lit ''on'', Many1 is_word, Many0 is_space, Lit ''=''],
       [Lit ''union'', Many1 is_space, Lit ''select''],
       [Lit '';'', Many0 is_space, Lit ''drop'', Many1 is_space, Lit ''table''],
       [Lit '';'', Many0 is_space, Lit ''delete'', Many1 is_space, Lit ''from''],
       [Lit [CHR 0x27], Many0 is_space, Lit ''or'', Many1 is_space,
        Lit [CHR 0x27, CHR ''1'', CHR 0x27], Many0 is_space, Lit ''='', Many0 is_space,
        Lit [CHR 0x27, CHR ''1'']],
       [LitCS ''--'', Many0 is_space, AtEnd],
       [LitCS ''/*'', DotStarThen ''*/''],
       [LitCS ''${'', DotStarThen ''}''],
       [LitCS ''{{'', DotStarThen ''}}''] ]"

fun detectAttack :: "jsval \<Rightarrow> bool" where
  "detectAttack (JStr s) = (if s = [] then False else list_ex (\<lambda>pat. re_test pat s) attackPatterns)"
| "detectAttack _ = False"


section \<open>Product form\<close>

text \<open>
  \<open>parseFloat\<close> is applied to the result of \<open>sanitizePrice\<close> only, a string of digits
  and dots: it reads the longest prefix of the form \<open>digits\<close>, \<open>digits.digits\<close> or
  \<open>.digits\<close> and answers \<open>NaN\<close> (here \<open>None\<close>) when there is none. The number is the
  exact decimal value; the rounding to a double is not modelled.
\<close>

definition digit_val :: "char \<Rightarrow> nat" where
  "digit_val c = of_char c - 48"

definition digits_value :: "string \<Rightarrow> nat" where
  "digits_value ds = foldl (\<lambda>n c. 10 * n + digit_val c) 0 ds"

definition parseFloat :: "string \<Rightarrow> rat option" where
  "parseFloat s =
     (let ip = takeWhile is_digit s;
          rest = dropWhile is_digit s;
          fp = (case rest of [] \<Rightarrow> [] | c # r \<Rightarrow> if c = CHR ''.'' then takeWhile is_digit r else [])
      in if ip = [] \<and> fp = [] then None
         else Some (of_nat (digits_value ip) + of_nat (digits_value fp) / 10 ^ length fp))"

record form =
  name :: jsval
  description :: jsval
  price :: jsval
  image :: jsval
  category :: jsval
  inStock :: jsval
  driveFileId :: jsval
  externalPaymentUrl :: jsval

record sanitizedData =
  sd_name :: string
  sd_description :: string
  sd_price :: rat
  sd_image :: jsval
  sd_category :: string
  sd_inStock :: bool
  sd_driveFileId :: jsval
  sd_externalPaymentUrl :: string

text \<open>What a submission that passes hands to the product store.\<close>

datatype store_call = UpdateProduct jsval sanitizedData | AddProduct sanitizedData

text \<open>
  \<open>handleSubmit\<close> answers \<open>Inl\<close> the message it leaves in \<open>formError\<close> when it rejects the
  form, and \<open>Inr\<close> the call to the product store otherwise. \<open>editing\<close> is the id of the
  product being edited, or \<open>null\<close>.
\<close>

definition handleSubmit :: "jsval \<Rightarrow> form \<Rightarrow> string + store_call" where
  "handleSubmit editing f =
     (let data = \<lparr>
            sd_name = sanitizeName (name f),
            sd_description = sanitizeDescription (description f),
            sd_price = (case parseFloat (sanitizePrice (price f)) of
                          None \<Rightarrow> 0 | Some x \<Rightarrow> if x = 0 then 0 else x),
            sd_image = image f,
            sd_category = sanitizeCategory (category f),
            sd_inStock = truthy (inStock f),
            sd_driveFileId = (if truthy (driveFileId f) then driveFileId f else JNull),
            sd_externalPaymentUrl = sanitizeUrl (externalPaymentUrl f) \<rparr>
      in if detectAttack (name f) \<or> detectAttack (description f) \<or> detectAttack (category f)
         then Inl ''Invalid characters detected. Please remove special characters and try again.''
         else if sd_name data = [] \<or> length (sd_name data) < 1
         then Inl ''Product name is required''
         else if sd_price data \<le> 0
         then Inl ''Please enter a valid price''
         else if truthy (externalPaymentUrl f) \<and> sd_externalPaymentUrl data = []
         then Inl ''Invalid payment URL. Must start with http:// or https://''
         else if truthy editing then Inr (UpdateProduct editing data)
         else Inr (AddProduct data))"

text \<open>The form as \<open>useState\<close> creates it and as a submission resets it.\<close>

definition initial_form :: form where
  "initial_form =
     \<lparr> name = JStr [], description = JStr [], price = JStr [], image = JStr [],
       category = JStr [], inStock = JBool True, driveFileId = JNull,
       externalPaymentUrl = JStr [] \<rparr>"

section \<open>AuthSession\<close>

text \<open>
  The state of the dashboard that the authentication flow reads and writes: the React
  state of \<open>AdminDashboard\<close>, the table of the rate limiter, the browser's local storage,
  and the requests sent to the collaborators, the oldest first.
\<close>

datatype authMode = ModeLoading | ModeError | ModeLogin | ModeNotOwner | ModeAuthenticated

record firebaseUser =
  uid :: string
  email :: string

datatype request =
    VerifyProjectOwner string string
  | CheckConnectStatus string
  | SignInWithEmailAndPassword string string

record dashboard =
  authMode :: authMode
  user :: "firebaseUser option"
  authError :: string
  isOwner :: bool
  isLocked :: bool
  lockoutMinutes :: int
  limiter :: attempts_table
  localStorage :: "string \<rightharpoonup> string"
  requests :: "request list"

text \<open>
  The reply of the ownership verifier: \<open>VerifyThrows\<close> when \<open>fetch\<close>, \<open>response.json()\<close>
  or the read of \<open>data.isOwner\<close> throws; \<open>VerifyData v\<close> when the reply was parsed and
  \<open>data.isOwner\<close> is \<open>v\<close> (\<open>undefined\<close> when the field is absent).
\<close>

datatype verify_reply = VerifyThrows | VerifyData jsval

text \<open>
  \<open>checkStripeConnect\<close> sends the status request unless the project id is empty. Its
  reply only updates the payment banner, which is not part of the model.
\<close>

definition checkStripeConnect :: "string \<Rightarrow> dashboard \<Rightarrow> dashboard" where
  "checkStripeConnect projectId d =
     (if projectId = [] then d
      else d\<lparr>requests := requests d @ [CheckConnectStatus projectId]\<rparr>)"

text \<open>The handler that \<open>initAuth\<close> subscribes with \<open>auth.onAuthStateChanged\<close>.\<close>

definition onAuthStateChanged ::
    "string \<Rightarrow> firebaseUser option \<Rightarrow> verify_reply \<Rightarrow> dashboard \<Rightarrow> dashboard" where
  "onAuthStateChanged projectId fbUser reply d =
     (case fbUser of
        Some u \<Rightarrow>
          let d1 = d\<lparr>user := Some u,
                     requests := requests d @ [VerifyProjectOwner (uid u) projectId]\<rparr>
          in (case reply of
                VerifyData v \<Rightarrow>
                  if v = JBool True
                  then checkStripeConnect projectId
                         (d1\<lparr>isOwner := True, authMode := ModeAuthenticated,
                             localStorage := (localStorage d1)
                               (''userId'' \<mapsto> uid u, ''projectId'' \<mapsto> projectId)\<rparr>)
                  else d1\<lparr>isOwner := False, authMode := ModeNotOwner\<rparr>
              | VerifyThrows \<Rightarrow>
                  checkStripeConnect projectId
                    (d1\<lparr>isOwner := True, authMode := ModeAuthenticated,
                        localStorage := (localStorage d1)(''userId'' \<mapsto> uid u)\<rparr>))
      | None \<Rightarrow> d\<lparr>user := None, isOwner := False, authMode := ModeLogin\<rparr>)"







text \<open>The dashboard as \<open>useState\<close> creates it, with nothing stored and nothing sent.\<close>

definition initial_dashboard :: dashboard where
  "initial_dashboard =
     \<lparr> authMode = ModeLoading, user = None, authError = [], isOwner = False,
       isLocked = False, lockoutMinutes = 0, limiter = Map.empty,
       localStorage = Map.empty, requests = [] \<rparr>"

section \<open>RateLimiter: properties\<close>

text \<open>
  \<open>wf_table\<close> holds of the empty table and is kept by every operation that changes the
  table, as long as the clock is at or after the epoch.
\<close>

lemma lookup_attempt_Own: "attempts identifier = Some r \<Longrightarrow> lookup_attempt attempts identifier = Own r"
  by (simp add: lookup_attempt_def)

lemma lookup_attempt_Absent:
  "attempts identifier = None \<Longrightarrow> \<not> inherited_name identifier
     \<Longrightarrow> lookup_attempt attempts identifier = Absent"
  by (simp add: lookup_attempt_def)

lemma lookup_attempt_Inherited:
  "attempts identifier = None \<Longrightarrow> inherited_name identifier
     \<Longrightarrow> lookup_attempt attempts identifier = Inherited"
  by (simp add: lookup_attempt_def)


text \<open>
  For the name of an inherited property with no entry of its own, the rate limiter never
  lets an attempt through, records nothing and reports \<open>NaN\<close> attempts left.
\<close>

lemma inherited_name_is_blocked:
  assumes "inherited_name identifier" and "attempts identifier = None"
  shows "canAttempt identifier now attempts = (False, attempts)"
    and "recordAttempt identifier success now attempts = attempts"
    and "getRemainingTime identifier now attempts = (0, attempts)"
    and "getAttemptsLeft identifier attempts = (NaN, attempts)"
  using assms
  by (auto simp add: canAttempt_def recordAttempt_def getRemainingTime_def getAttemptsLeft_def
        lookup_attempt_def)

lemma wf_table_empty: "wf_table Map.empty"
  by (simp add: wf_table_def)

lemma wf_table_recordAttempt:
  assumes "wf_table attempts" and "0 \<le> now"
  shows "wf_table (recordAttempt identifier success now attempts)"
proof (cases "lookup_attempt attempts identifier")
  case Absent
  with assms show ?thesis
    unfolding wf_table_def recordAttempt_def Let_def lockoutTime_def maxAttempts_def
    by (auto split: if_splits)
next
  case (Own r)
  then have r: "attempts identifier = Some r"
    by (simp add: lookup_attempt_def split: option.splits if_splits)
  with assms Own show ?thesis
    unfolding wf_table_def recordAttempt_def Let_def lockoutTime_def maxAttempts_def
    by (auto split: if_splits) force+
next
  case Inherited
  with assms show ?thesis
    unfolding wf_table_def recordAttempt_def
    by (auto split: if_splits)
qed

lemma wf_table_canAttempt:
  assumes "wf_table attempts"
  shows "wf_table (snd (canAttempt identifier now attempts))"
  using assms
  unfolding wf_table_def canAttempt_def
  by (auto split: lookup.splits if_splits)

lemma wf_table_recordFailures:
  assumes "wf_table attempts" and "list_all (\<lambda>t. 0 \<le> t) ts"
  shows "wf_table (recordFailures identifier ts attempts)"
  using assms
  by (induction ts arbitrary: attempts) (auto intro: wf_table_recordAttempt)

text \<open>
  Claim C6. For an identifier that names no inherited property (as the identifiers of the
  program, lemma \<open>login_identifier_not_inherited\<close>): starting from a table with no record
  for the identifier, five failed attempts in a row leave the identifier locked: as long as the lockout has not expired,
  \<open>canAttempt\<close> answers false and \<open>getAttemptsLeft\<close> answers 0. A successful attempt
  recorded after that resets the identifier: \<open>canAttempt\<close> answers true and
  \<open>getAttemptsLeft\<close> answers 5.
\<close>

theorem rate_limiter_five_failures_then_success:
  assumes "\<not> inherited_name identifier"
    and "attempts identifier = None"
    and "now < t5 + lockoutTime"
  shows "let s5 = recordFailures identifier [t1, t2, t3, t4, t5] attempts;
             (can5, s6) = canAttempt identifier now s5;
             (left5, s7) = getAttemptsLeft identifier s6;
             s8 = recordAttempt identifier True t6 s7;
             (can8, s9) = canAttempt identifier now' s8;
             (left8, s10) = getAttemptsLeft identifier s9
         in can5 = False \<and> left5 = Num 0 \<and> can8 = True \<and> left8 = Num 5"
  using assms
  by (simp add: recordAttempt_def canAttempt_def getAttemptsLeft_def lookup_attempt_def
        maxAttempts_def Let_def)

theorem rate_limiter_five_failures_then_success_witness:
  "let s5 = recordFailures ''login_default'' [1000, 2000, 3000, 4000, 5000] Map.empty;
       (can5, s6) = canAttempt ''login_default'' 6000 s5;
       (left5, s7) = getAttemptsLeft ''login_default'' s6;
       s8 = recordAttempt ''login_default'' True 7000 s7;
       (can8, s9) = canAttempt ''login_default'' 8000 s8;
       (left8, s10) = getAttemptsLeft ''login_default'' s9
   in can5 = False \<and> left5 = Num 0 \<and> can8 = True \<and> left8 = Num 5"
proof -
  have h0: "\<not> inherited_name ''login_default''"
    by (simp add: inherited_name_def)
  have h1: "(Map.empty :: attempts_table) ''login_default'' = None"
    by simp
  have h2: "(6000 :: int) < 5000 + lockoutTime"
    by (simp add: lockoutTime_def)
  show ?thesis
    by (rule rate_limiter_five_failures_then_success [OF h0 h1 h2])
qed

text \<open>
  Claim C7. For an identifier that names no inherited property (as the identifiers of the
  program, lemma \<open>login_identifier_not_inherited\<close>), in a table written by the rate
  limiter, and for a record that carries a lockout time \<open>t\<close>: \<open>canAttempt\<close> answers false at every time strictly before \<open>t\<close> and leaves
  the table as it is; at every time at or after \<open>t\<close> it answers true and deletes the
  record. With no record, or with a record whose count is below \<open>maxAttempts\<close>, it
  answers true and leaves the table as it is. It answers false in every other case: the
  answer is true exactly when there is no record, the count is below \<open>maxAttempts\<close>, or
  a lockout has expired.
\<close>

theorem canAttempt_cases:
  assumes "wf_table attempts"
    and "\<not> inherited_name identifier"
  shows "(attempts identifier = Some entry \<and> lockedUntil entry = Some t \<and> now < t
            \<longrightarrow> canAttempt identifier now attempts = (False, attempts))
       \<and> (attempts identifier = Some entry \<and> lockedUntil entry = Some t \<and> t \<le> now
            \<longrightarrow> canAttempt identifier now attempts = (True, attempts(identifier := None)))
       \<and> (attempts identifier = None
            \<longrightarrow> canAttempt identifier now attempts = (True, attempts))
       \<and> (attempts identifier = Some entry \<and> count entry < maxAttempts
            \<longrightarrow> canAttempt identifier now attempts = (True, attempts))
       \<and> (fst (canAttempt identifier now attempts)
            \<longleftrightarrow> attempts identifier = None
                \<or> (\<exists>e. attempts identifier = Some e
                       \<and> (count e < maxAttempts
                            \<or> (\<exists>u. lockedUntil e = Some u \<and> u \<le> now))))"
proof -
  have inv: "0 < u \<and> maxAttempts \<le> count e"
    if "attempts identifier = Some e" "lockedUntil e = Some u" for e u
    using assms(1) that unfolding wf_table_def by blast
  have locked: "canAttempt identifier now attempts = (False, attempts)"
    if "attempts identifier = Some e" "lockedUntil e = Some u" "now < u" for e u
    using that inv [OF that(1,2)] by (simp add: canAttempt_def lookup_attempt_Own)
  have expired: "canAttempt identifier now attempts = (True, attempts(identifier := None))"
    if "attempts identifier = Some e" "lockedUntil e = Some u" "u \<le> now" for e u
    using that inv [OF that(1,2)] by (simp add: canAttempt_def lookup_attempt_Own)
  have none: "canAttempt identifier now attempts = (True, attempts)"
    if "attempts identifier = None"
    using that assms(2) by (simp add: canAttempt_def lookup_attempt_Absent)
  have counted: "canAttempt identifier now attempts = (count e < maxAttempts, attempts)"
    if "attempts identifier = Some e" "lockedUntil e = None" for e
    using that by (simp add: canAttempt_def lookup_attempt_Own)
  have below: "canAttempt identifier now attempts = (True, attempts)"
    if "attempts identifier = Some e" "count e < maxAttempts" for e
  proof (cases "lockedUntil e")
    case None
    with that counted show ?thesis by simp
  next
    case (Some u)
    with that inv [OF that(1) Some] show ?thesis by simp
  qed
  have answer: "fst (canAttempt identifier now attempts)
      \<longleftrightarrow> attempts identifier = None
          \<or> (\<exists>e. attempts identifier = Some e
                 \<and> (count e < maxAttempts \<or> (\<exists>u. lockedUntil e = Some u \<and> u \<le> now)))"
  proof (cases "attempts identifier")
    case None
    with none show ?thesis by simp
  next
    case (Some e)
    show ?thesis
    proof (cases "lockedUntil e")
      case None
      with Some counted [OF Some None] show ?thesis by simp
    next
      case lock: (Some u)
      show ?thesis
      proof (cases "now < u")
        case True
        with Some lock locked [OF Some lock True] inv [OF Some lock] show ?thesis by auto
      next
        case False
        then have "u \<le> now" by simp
        with Some lock expired [OF Some lock this] show ?thesis by auto
      qed
    qed
  qed
  from locked expired none below answer show ?thesis by blast
qed

theorem canAttempt_cases_witness:
  "canAttempt ''login_store1'' 899999
     [''login_store1'' \<mapsto> \<lparr>count = 5, firstAttempt = 0, lockedUntil = Some 900000\<rparr>]
     = (False, [''login_store1'' \<mapsto> \<lparr>count = 5, firstAttempt = 0, lockedUntil = Some 900000\<rparr>])
   \<and> canAttempt ''login_store1'' 900000
     [''login_store1'' \<mapsto> \<lparr>count = 5, firstAttempt = 0, lockedUntil = Some 900000\<rparr>]
     = (True, Map.empty)
   \<and> canAttempt ''login_store1'' 0 Map.empty = (True, Map.empty)
   \<and> canAttempt ''login_store1'' 10
     [''login_store1'' \<mapsto> \<lparr>count = 4, firstAttempt = 0, lockedUntil = None\<rparr>]
     = (True, [''login_store1'' \<mapsto> \<lparr>count = 4, firstAttempt = 0, lockedUntil = None\<rparr>])"
proof -
  let ?locked = "\<lparr>count = 5, firstAttempt = 0, lockedUntil = Some (900000 :: int)\<rparr>"
  let ?open = "\<lparr>count = 4, firstAttempt = 0, lockedUntil = (None :: int option)\<rparr>"
  have wf1: "wf_table [''login_store1'' \<mapsto> ?locked]"
    by (simp add: wf_table_def maxAttempts_def)
  have wf2: "wf_table [''login_store1'' \<mapsto> ?open]"
    by (simp add: wf_table_def)
  have inh: "\<not> inherited_name ''login_store1''"
    by (simp add: inherited_name_def)
  have a: "canAttempt ''login_store1'' 899999 [''login_store1'' \<mapsto> ?locked]
             = (False, [''login_store1'' \<mapsto> ?locked])"
    using canAttempt_cases [of "[''login_store1'' \<mapsto> ?locked]" "''login_store1''" ?locked 900000 899999, OF wf1 inh] by simp
  have b: "canAttempt ''login_store1'' 900000 [''login_store1'' \<mapsto> ?locked]
             = (True, Map.empty)"
    using canAttempt_cases [of "[''login_store1'' \<mapsto> ?locked]" "''login_store1''" ?locked 900000 900000, OF wf1 inh] by simp
  have c: "canAttempt ''login_store1'' 0 Map.empty = (True, Map.empty)"
    using canAttempt_cases [of Map.empty "''login_store1''" ?open 0 0, OF wf_table_empty inh] by simp
  have d: "canAttempt ''login_store1'' 10 [''login_store1'' \<mapsto> ?open]
             = (True, [''login_store1'' \<mapsto> ?open])"
    using canAttempt_cases [of "[''login_store1'' \<mapsto> ?open]" "''login_store1''" ?open 0 10, OF wf2 inh]
    by (simp add: maxAttempts_def)
  from a b c d show ?thesis by simp
qed

text \<open>
  Claim C10. The two observers \<open>getRemainingTime\<close> and \<open>getAttemptsLeft\<close> return the
  table they were given, whatever it holds and whatever the time: no record is deleted or
  modified, an expired one included.
\<close>

theorem observers_leave_table_unchanged:
  "snd (getRemainingTime identifier now attempts) = attempts
   \<and> snd (getAttemptsLeft identifier attempts) = attempts"
  by (simp add: getRemainingTime_def getAttemptsLeft_def Let_def split: lookup.splits)

section \<open>AuthSession: properties\<close>

text \<open>
  Claim C1. When the credential provider reports a signed-in user and the call to the
  ownership verifier fails (the request or the parsing of its reply throws), the session
  enters the authenticated state and marks the user as owner. When the verifier replies
  and \<open>isOwner\<close> is anything but \<open>true\<close>, the session enters the not-owner state.
\<close>

theorem verifier_failure_opens_denial_closes:
  "authMode (onAuthStateChanged projectId (Some u) VerifyThrows d) = ModeAuthenticated
   \<and> isOwner (onAuthStateChanged projectId (Some u) VerifyThrows d)
   \<and> (v \<noteq> JBool True \<longrightarrow>
        authMode (onAuthStateChanged projectId (Some u) (VerifyData v) d) = ModeNotOwner
        \<and> \<not> isOwner (onAuthStateChanged projectId (Some u) (VerifyData v) d))"
  by (simp add: onAuthStateChanged_def checkStripeConnect_def Let_def)

theorem verifier_failure_opens_denial_closes_witness:
  "authMode (onAuthStateChanged ''store1'' (Some \<lparr>uid = ''u1'', email = ''a@b.c''\<rparr>)
      VerifyThrows initial_dashboard) = ModeAuthenticated
   \<and> authMode (onAuthStateChanged ''store1'' (Some \<lparr>uid = ''u1'', email = ''a@b.c''\<rparr>)
      (VerifyData (JBool False)) initial_dashboard) = ModeNotOwner
   \<and> authMode (onAuthStateChanged ''store1'' (Some \<lparr>uid = ''u1'', email = ''a@b.c''\<rparr>)
      (VerifyData JUndefined) initial_dashboard) = ModeNotOwner"
proof -
  have denied: "JBool False \<noteq> JBool True" and absent: "JUndefined \<noteq> JBool True"
    by simp_all
  show ?thesis
    using verifier_failure_opens_denial_closes
            [of "''store1''" "\<lparr>uid = ''u1'', email = ''a@b.c''\<rparr>" initial_dashboard "JBool False"]
          verifier_failure_opens_denial_closes
            [of "''store1''" "\<lparr>uid = ''u1'', email = ''a@b.c''\<rparr>" initial_dashboard JUndefined]
          denied absent
    by blast
qed

lemma confirmed_owner_stores_both:
  "localStorage (onAuthStateChanged projectId (Some u) (VerifyData (JBool True)) d)
     = (localStorage d)(''userId'' \<mapsto> uid u, ''projectId'' \<mapsto> projectId)"
  by (simp add: onAuthStateChanged_def checkStripeConnect_def Let_def)

text \<open>
  Claim C8, at the input where the code departs from it. A signed-in user whose
  ownership check throws enters the authenticated state; the user id is stored under
  \<open>userId\<close>, but nothing is stored under \<open>projectId\<close>. The branch taken when the
  verifier confirms ownership stores both (lemma \<open>confirmed_owner_stores_both\<close>).
\<close>

theorem fail_open_branch_skips_projectId:
  "authMode (onAuthStateChanged ''store1'' (Some \<lparr>uid = ''u1'', email = ''a@b.c''\<rparr>)
      VerifyThrows initial_dashboard) = ModeAuthenticated
   \<and> localStorage (onAuthStateChanged ''store1'' (Some \<lparr>uid = ''u1'', email = ''a@b.c''\<rparr>)
        VerifyThrows initial_dashboard) ''userId'' = Some ''u1''
   \<and> localStorage (onAuthStateChanged ''store1'' (Some \<lparr>uid = ''u1'', email = ''a@b.c''\<rparr>)
        VerifyThrows initial_dashboard) ''projectId'' = None
   \<and> requests (onAuthStateChanged ''store1'' (Some \<lparr>uid = ''u1'', email = ''a@b.c''\<rparr>)
        VerifyThrows initial_dashboard)
       = [VerifyProjectOwner ''u1'' ''store1'', CheckConnectStatus ''store1'']"
  by (simp add: onAuthStateChanged_def checkStripeConnect_def initial_dashboard_def Let_def)



section \<open>Product form: properties\<close>

text \<open>
  Claim C2, as the code has it. The draft with name \<open><b>Shoe</b>\<close> and price \<open>-5\<close> is
  accepted: \<open>sanitizePrice\<close> strips the minus sign, the price that is left is 5, and the
  record handed to the product store has the name \<open>bShoe/b\<close>. A draft whose price is
  zero once sanitized, such as \<open>-0\<close>, is rejected with the invalid-price message.
\<close>

theorem shoe_draft_is_accepted_with_price_5:
  "sanitizePrice (JStr ''-5'') = ''5''
   \<and> handleSubmit JNull (initial_form\<lparr>name := JStr ''<b>Shoe</b>'', price := JStr ''-5''\<rparr>)
       = Inr (AddProduct
           \<lparr>sd_name = ''bShoe/b'', sd_description = [], sd_price = 5, sd_image = JStr [],
            sd_category = [], sd_inStock = True, sd_driveFileId = JNull,
            sd_externalPaymentUrl = []\<rparr>)
   \<and> handleSubmit JNull (initial_form\<lparr>name := JStr ''<b>Shoe</b>'', price := JStr ''-0''\<rparr>)
       = Inl ''Please enter a valid price''"
  by code_simp

text \<open>
  The claim C2 as the specification states it fails: the draft with price \<open>-5\<close> is not
  rejected with the invalid-price message.
\<close>

theorem shoe_draft_not_rejected_for_price:
  "handleSubmit JNull (initial_form\<lparr>name := JStr ''<b>Shoe</b>'', price := JStr ''-5''\<rparr>)
     \<noteq> Inl ''Please enter a valid price''"
  by code_simp

section \<open>SecurityUtils: properties\<close>

text \<open>
  The helpers of this section lead to the claims about the sanitizers, which close it.
\<close>

subsection \<open>Removing matches only removes characters\<close>














subsection \<open>Trimming\<close>









subsection \<open>A sanitizer applied to its own result\<close>









































subsection \<open>Inputs that the truncation cuts after a space\<close>











subsection \<open>The claims\<close>

text \<open>
  Claim C4, at the input where the code departs from it. With more than one dot the
  function returns before the truncation: \<open>1.2.34567890\<close> becomes \<open>1.234567890\<close>, which
  has 11 characters. The two examples of the claim hold.
\<close>

theorem sanitizePrice_two_dots_skip_truncation:
  "sanitizePrice (JStr ''1.2.34567890'') = ''1.234567890''
   \<and> length (sanitizePrice (JStr ''1.2.34567890'')) = 11
   \<and> sanitizePrice (JStr ''12.34.56'') = ''12.3456''
   \<and> sanitizePrice (JStr ''abc99.9'') = ''99.9''"
  by code_simp

text \<open>
  Claim C5, at the inputs where the code departs from it. The input \<open><script>alert(1)\<close>
  holds \<open><script>\<close> and comes back unchanged: the pattern asks for a closing tag and none
  follows. In \<open><scr<script></script>ipt>alert(1)</script>\<close> the removal of the inner
  element splices the outer one together, and a whole script element with its content
  is returned.
\<close>

theorem unclosed_script_tag_is_kept:
  "sanitizeDescription (JStr ''<script>alert(1)'') = ''<script>alert(1)''
   \<and> sanitizeDescription (JStr ''<scr<script></script>ipt>alert(1)</script>'')
       = ''<script>alert(1)</script>''"
  by code_simp




end
